theory Spec2Isabelle
  imports Main "HOL-Library.AList"
begin

section \<open>JavaScript values and objects\<close>

text \<open>
  The adapter of \<^verbatim>\<open>src/index.js\<close> works on plain JavaScript data: the caller's
  \<^verbatim>\<open>params\<close>, the query mapping, the request body and the parsed JSON of a response.
  A value is a primitive, an array or an object; an object is the list of its own
  properties, each key once, in insertion order (the order JavaScript gives to
  integer-like keys is not modelled, and no statement below depends on the order).
  Numbers are the integers (identifiers, page numbers, totals). A property read of an
  absent key gives \<^verbatim>\<open>undefined\<close>, an assignment overwrites the value of a present key
  in place and appends an absent one, and \<^verbatim>\<open>delete\<close> removes the key.
\<close>

datatype jsval =
    JUndefined
  | JNull
  | JBool bool
  | JNum int
  | JStr string
  | JArr "jsval list"
  | JObj "(string \<times> jsval) list"

type_synonym object = "(string \<times> jsval) list"

datatype error =
    Error string
  | TypeError
  | TransportError string

definition get :: "object \<Rightarrow> string \<Rightarrow> jsval" where
  "get ob k = (case map_of ob k of None \<Rightarrow> JUndefined | Some v \<Rightarrow> v)"

text \<open>\<^verbatim>\<open>v.k\<close> on any value: a TypeError on \<^verbatim>\<open>undefined\<close> and \<^verbatim>\<open>null\<close>.\<close>

fun property :: "jsval \<Rightarrow> string \<Rightarrow> error + jsval" where
  "property JUndefined k = Inl TypeError"
| "property JNull k = Inl TypeError"
| "property (JObj ob) k = Inr (get ob k)"
| "property v k = Inr JUndefined"

text \<open>The condition of \<^verbatim>\<open>if (v)\<close>, \<^verbatim>\<open>v ? a : b\<close> and \<^verbatim>\<open>v && w\<close>.\<close>

fun truthy :: "jsval \<Rightarrow> bool" where
  "truthy JUndefined = False"
| "truthy JNull = False"
| "truthy (JBool b) = b"
| "truthy (JNum n) = (n \<noteq> 0)"
| "truthy (JStr s) = (s \<noteq> [])"
| "truthy (JArr xs) = True"
| "truthy (JObj ob) = True"

text \<open>\<^verbatim>\<open>v != null\<close> is false exactly on \<^verbatim>\<open>null\<close> and \<^verbatim>\<open>undefined\<close>.\<close>

definition not_null :: "jsval \<Rightarrow> bool" where
  "not_null v = (v \<noteq> JNull \<and> v \<noteq> JUndefined)"

text \<open>\<^verbatim>\<open>Object.keys\<close>: every own key once.\<close>

definition Object_keys :: "object \<Rightarrow> string list" where
  "Object_keys ob = remdups (map fst ob)"

text \<open>\<^verbatim>\<open>Object.assign(target, source)\<close> and its variadic form.\<close>

definition Object_assign :: "object \<Rightarrow> object \<Rightarrow> object" where
  "Object_assign target source = fold (\<lambda>(k, v). AList.update k v) source target"

definition Object_assign_all :: "object \<Rightarrow> object list \<Rightarrow> object" where
  "Object_assign_all target sources = fold (\<lambda>s t. Object_assign t s) sources target"

text \<open>\<^verbatim>\<open>Array.prototype.join\<close> on a sequence of sequences.\<close>

fun join :: "'a list list \<Rightarrow> 'a list \<Rightarrow> 'a list" where
  "join [] sep = []"
| "join [x] sep = x"
| "join (x # y # ys) sep = x @ sep @ join (y # ys) sep"

section \<open>Collaborators\<close>

text \<open>
  Modelled from the spec: \<^verbatim>\<open>fetchUtils.flattenObject\<close> belongs to the UI framework and
  is not part of the repository. The spec (4.1) has it flatten nested filter objects into
  dotted-path keys, so that the result is a flat mapping; every value that is not an
  object with keys (a primitive, an array, an empty object) stays the value of its path.
  Called on such a value with no path, as on an empty filter, the framework's function
  returns the value itself and not a copy: \<open>returns_itself\<close> tells when, and the empty
  mapping that \<open>flattenObject\<close> gives there stands for that same object.
\<close>

function flattenObject :: "jsval \<Rightarrow> string list \<Rightarrow> object" where
  "flattenObject v path =
     (case v of
        JObj (kv # kvs) \<Rightarrow>
          Object_assign_all []
            (map (\<lambda>key. flattenObject (get (kv # kvs) key) (path @ [key]))
                 (Object_keys (kv # kvs)))
      | _ \<Rightarrow> if path \<noteq> [] then [(join path ''.'', v)] else [])"
  by pat_completeness auto
termination
proof (relation "measure (\<lambda>(v, path). size v)")
  show "wf (measure (\<lambda>(v, path). size v))" by simp
next
  fix v :: jsval and path :: "string list" and ob kv kvs key
  assume v: "v = JObj ob" and ob: "ob = kv # kvs"
    and key: "key \<in> set (Object_keys (kv # kvs))"
  have smaller: "k \<in> set (map fst al) \<Longrightarrow> size (get al k) < size (JObj al)" for k al
  proof (induction al)
    case Nil
    then show ?case by simp
  next
    case (Cons p al)
    obtain k' v' where p: "p = (k', v')" by (cases p)
    show ?case
    proof (cases "k = k'")
      case True
      then show ?thesis by (simp add: p get_def)
    next
      case False
      with Cons.prems p have "k \<in> set (map fst al)" by simp
      from Cons.IH [OF this] False show ?thesis by (simp add: p get_def)
    qed
  qed
  from key have "key \<in> set (map fst (kv # kvs))"
    unfolding Object_keys_def by (simp only: set_remdups)
  from smaller [OF this] v ob
  show "((get (kv # kvs) key, path @ [key]), (v, path)) \<in> measure (\<lambda>(v, path). size v)"
    by simp
qed

declare flattenObject.simps [simp del]

definition returns_itself :: "jsval \<Rightarrow> bool" where
  "returns_itself v = (case v of JObj (kv # kvs) \<Rightarrow> False | _ \<Rightarrow> True)"

text \<open>
  The query-string encoder \<^verbatim>\<open>stringify\<close> and \<^verbatim>\<open>JSON.stringify\<close> are collaborators
  too, and are not interpreted. A URL is kept as the pieces of its template literal, with
  the encoded query as the mapping that is encoded, and a body as the value that is
  serialised, so that the keys a request carries can be read from it.
\<close>

datatype url_part =
    Lit string
  | Interp jsval
  | Stringify object

type_synonym url = "url_part list"

datatype json_text = JSON_stringify jsval

text \<open>
  Modelled from the spec: the nine operation kinds (spec 3) are constants imported from
  the UI framework, whose values are not part of the repository; each is taken to be the
  string of its own name.
\<close>

definition GET_LIST :: string where "GET_LIST = ''GET_LIST''"
definition GET_ONE :: string where "GET_ONE = ''GET_ONE''"
definition GET_MANY :: string where "GET_MANY = ''GET_MANY''"
definition GET_MANY_REFERENCE :: string where "GET_MANY_REFERENCE = ''GET_MANY_REFERENCE''"
definition CREATE :: string where "CREATE = ''CREATE''"
definition UPDATE :: string where "UPDATE = ''UPDATE''"
definition UPDATE_MANY :: string where "UPDATE_MANY = ''UPDATE_MANY''"
definition DELETE :: string where "DELETE = ''DELETE''"
definition DELETE_MANY :: string where "DELETE_MANY = ''DELETE_MANY''"

section \<open>The data of a call\<close>

record Pagination =
  page :: jsval
  perPage :: jsval

text \<open>An absent sort field is \<open>None\<close>; any order other than \<^verbatim>\<open>'DESC'\<close> sorts ascending.\<close>

record Sort =
  field :: "string option"
  order :: string

record Params =
  pagination :: Pagination
  sort_p :: Sort
  filter_p :: object
  id_p :: jsval
  ids :: "jsval list"
  target :: string
  data :: object

record Options =
  http_method :: "string option"
  body :: "json_text option"

record Request =
  url :: url
  options :: Options

record Response =
  json :: jsval

datatype result = Result (data_of: jsval) (total_of: "jsval option")

section \<open>Query builder\<close>

text \<open>
  \<^verbatim>\<open>getQueryForParams\<close> assigns to \<^verbatim>\<open>params.filter\<close> before it flattens it, and
  \<^verbatim>\<open>Object.assign\<close> writes \<^verbatim>\<open>$limit\<close>, \<^verbatim>\<open>$page\<close> and \<^verbatim>\<open>$sort\<close> into the object that
  \<^verbatim>\<open>flattenObject\<close> returns, which is \<^verbatim>\<open>params.filter\<close> itself when the filter has no
  keys. So the function returns, before the query, the caller's params as it leaves them
  and whether the query it returns is the object \<^verbatim>\<open>params.filter\<close> itself.
\<close>

definition sort_value :: "string \<Rightarrow> string \<Rightarrow> string" where
  "sort_value ord f = (if ord = ''DESC'' then ''-'' else []) @ f"

definition getQueryForParams :: "Params \<Rightarrow> (Params \<times> bool) \<times> object" where
  "getQueryForParams params =
     (let page = page (pagination params);
          perPage = perPage (pagination params);
          field = field (sort_p params);
          order = order (sort_p params);
          present = (case field of None \<Rightarrow> False | Some f \<Rightarrow> f \<noteq> []);
          filter1 = (if present
                     then AList.update ''$sort'' (JStr (sort_value order (the field)))
                            (filter_p params)
                     else filter_p params);
          filter2 = (if not_null (get filter1 ''q'')
                     then AList.delete ''q''
                            (AList.update ''$term'' (get filter1 ''q'') filter1)
                     else filter1);
          shared = returns_itself (JObj filter2);
          query =
            Object_assign_all (flattenObject (JObj filter2) [])
              [[(''$limit'', perPage), (''$page'', page)],
               if present
               then [(''$sort'',
                      JStr (sort_value order (if the field = ''id'' then ''_id'' else the field)))]
               else []]
      in ((params\<lparr>filter_p := if shared then query else filter2\<rparr>, shared), query))"

section \<open>Request translator\<close>

definition cleanData :: "Params \<Rightarrow> json_text" where
  "cleanData params =
     (let clean = Object_assign [] (data params);
          clean = AList.delete ''id'' clean;
          clean = AList.delete ''createdAt'' clean;
          clean = AList.delete ''updatedAt'' clean;
          clean = AList.delete ''deletedAt'' clean;
          clean = AList.delete ''isDeleted'' clean
      in JSON_stringify (JObj clean))"

definition no_options :: Options where
  "no_options = \<lparr>http_method = None, body = None\<rparr>"

definition convertDataRequestToHTTP ::
  "string \<Rightarrow> string \<Rightarrow> string \<Rightarrow> Params \<Rightarrow> error + (Request \<times> Params)" where
  "convertDataRequestToHTTP apiUrl type resource params =
     (if type = GET_LIST then
        (let ((params', shared), query) = getQueryForParams params
         in Inr (\<lparr>url = [Lit apiUrl, Lit ''/'', Lit resource, Lit ''?'', Stringify query],
                  options = no_options\<rparr>, params'))
      else if type = GET_ONE then
        Inr (\<lparr>url = [Lit apiUrl, Lit ''/'', Lit resource, Lit ''/'', Interp (id_p params)],
               options = no_options\<rparr>, params)
      else if type = GET_MANY_REFERENCE then
        (let ((params', shared), query) = getQueryForParams params;
             query = AList.update (target params') (id_p params') query;
             params' = (if shared then params'\<lparr>filter_p := query\<rparr> else params')
         in Inr (\<lparr>url = [Lit apiUrl, Lit ''/'', Lit resource, Lit ''?'', Stringify query],
                  options = no_options\<rparr>, params'))
      else if type = UPDATE then
        Inr (\<lparr>url = [Lit apiUrl, Lit ''/'', Lit resource, Lit ''/'', Interp (id_p params)],
               options = \<lparr>http_method = Some ''PUT'', body = Some (cleanData params)\<rparr>\<rparr>, params)
      else if type = CREATE then
        Inr (\<lparr>url = [Lit apiUrl, Lit ''/'', Lit resource],
               options = \<lparr>http_method = Some ''POST'', body = Some (cleanData params)\<rparr>\<rparr>, params)
      else if type = DELETE then
        Inr (\<lparr>url = [Lit apiUrl, Lit ''/'', Lit resource, Lit ''/'', Interp (id_p params)],
               options = \<lparr>http_method = Some ''DELETE'', body = None\<rparr>\<rparr>, params)
      else if type = GET_MANY then
        Inr (\<lparr>url = [Lit apiUrl, Lit ''/'', Lit resource, Lit ''?'']
                      @ join (map (\<lambda>an_id. [Stringify [(''_id'', an_id)]]) (ids params))
                             [Lit ''&''],
               options = no_options\<rparr>, params)
      else Inl (Error (''Unsupported fetch action type '' @ type)))"

section \<open>Response translator\<close>

text \<open>
  One record of a list-like response: \<^verbatim>\<open>(d.id = d._id) && delete d._id && d\<close>. The
  assignment is the value assigned, \<^verbatim>\<open>delete\<close> is \<^verbatim>\<open>true\<close>, and \<^verbatim>\<open>&&\<close> gives its
  left operand when that is falsy. The source is a module, hence strict code, where an
  assignment to a property of a primitive is a TypeError; an array takes the property,
  and its own \<^verbatim>\<open>_id\<close> is undefined.
\<close>

fun convertDoc :: "jsval \<Rightarrow> error + jsval" where
  "convertDoc (JObj d) =
     (let v = get d ''_id''; d1 = AList.update ''id'' v d
      in if truthy v then Inr (JObj (AList.delete ''_id'' d1)) else Inr v)"
| "convertDoc (JArr xs) = Inr JUndefined"
| "convertDoc d = Inl TypeError"

fun mapM :: "('a \<Rightarrow> error + 'b) \<Rightarrow> 'a list \<Rightarrow> error + 'b list" where
  "mapM f [] = Inr []"
| "mapM f (x # xs) =
     (case f x of
        Inl e \<Rightarrow> Inl e
      | Inr y \<Rightarrow> (case mapM f xs of Inl e \<Rightarrow> Inl e | Inr ys \<Rightarrow> Inr (y # ys)))"

text \<open>
  The other kinds: \<^verbatim>\<open>json.id = json._id; delete json._id\<close>. On an array both
  statements touch a named property that the elements do not show.
\<close>

fun convertRecord :: "jsval \<Rightarrow> error + jsval" where
  "convertRecord (JObj j) =
     Inr (JObj (AList.delete ''_id'' (AList.update ''id'' (get j ''_id'') j)))"
| "convertRecord (JArr xs) = Inr (JArr xs)"
| "convertRecord j = Inl TypeError"

definition convertHTTPResponse ::
  "Response \<Rightarrow> string \<Rightarrow> string \<Rightarrow> Params \<Rightarrow> error + (result \<times> Params)" where
  "convertHTTPResponse response type resource params =
     (let json = json response in
      if type = GET_LIST \<or> type = GET_MANY \<or> type = GET_MANY_REFERENCE then
        (case property json ''docs'' of
           Inl e \<Rightarrow> Inl e
         | Inr (JArr docs) \<Rightarrow>
             (case mapM convertDoc docs of
                Inl e \<Rightarrow> Inl e
              | Inr ds \<Rightarrow>
                  (case property json ''items'' of
                     Inl e \<Rightarrow> Inl e
                   | Inr items \<Rightarrow>
                       (case property items ''total'' of
                          Inl e \<Rightarrow> Inl e
                        | Inr n \<Rightarrow> Inr (Result (JArr ds) (Some n), params))))
         | Inr _ \<Rightarrow> Inl TypeError)
      else if type = CREATE then
        (let d = AList.update ''id'' (get (data params) ''_id'') (data params);
             d = AList.delete ''_id'' d
         in Inr (Result (JObj d) None, params\<lparr>data := d\<rparr>))
      else
        (case convertRecord json of
           Inl e \<Rightarrow> Inl e
         | Inr j \<Rightarrow> Inr (Result j None, params)))"

section \<open>Promises and the transport\<close>

text \<open>
  A promise is given by how and when it settles. The transport \<^verbatim>\<open>httpClient\<close> is a
  parameter: from the state of the world outside and a request it gives the promise of the
  response and the next state. \<^verbatim>\<open>Promise.all\<close> is rejected with the reason of the
  promise that is rejected first in time, and fulfilled, once all are, with the values
  in the order of the promises.
\<close>

datatype 'a promise = Promise (settled_at: nat) (settlement: "error + 'a")

type_synonym 'w httpClient = "'w \<Rightarrow> url \<Rightarrow> Options \<Rightarrow> Response promise \<times> 'w"

fun first_rejection :: "'a promise list \<Rightarrow> (nat \<times> error) option" where
  "first_rejection [] = None"
| "first_rejection (Promise t (Inr v) # ps) = first_rejection ps"
| "first_rejection (Promise t (Inl e) # ps) =
     (case first_rejection ps of
        None \<Rightarrow> Some (t, e)
      | Some (t', e') \<Rightarrow> if t' < t then Some (t', e') else Some (t, e))"

fun fulfilled_values :: "'a promise list \<Rightarrow> 'a list" where
  "fulfilled_values [] = []"
| "fulfilled_values (Promise t (Inr v) # ps) = v # fulfilled_values ps"
| "fulfilled_values (Promise t (Inl e) # ps) = fulfilled_values ps"

definition Promise_all :: "'a promise list \<Rightarrow> 'a list promise" where
  "Promise_all ps =
     (case first_rejection ps of
        Some (t, e) \<Rightarrow> Promise t (Inl e)
      | None \<Rightarrow> Promise (fold max (map settled_at ps) 0) (Inr (fulfilled_values ps)))"

text \<open>\<^verbatim>\<open>p.then(f)\<close> for a callback that may throw.\<close>

fun then_p :: "'a promise \<Rightarrow> ('a \<Rightarrow> error + 'b) \<Rightarrow> 'b promise" where
  "then_p (Promise t (Inl e)) f = Promise t (Inl e)"
| "then_p (Promise t (Inr v)) f = Promise t (f v)"

text \<open>\<^verbatim>\<open>requests.map(r => httpClient(r.url, r.options))\<close>: the calls in order.\<close>

fun issue :: "'w httpClient \<Rightarrow> 'w \<Rightarrow> Request list \<Rightarrow> Response promise list \<times> 'w" where
  "issue httpClient w [] = ([], w)"
| "issue httpClient w (r # rs) =
     (let (p, w1) = httpClient w (url r) (options r);
          (ps, w2) = issue httpClient w1 rs
      in (p # ps, w2))"

section \<open>The adapter\<close>

text \<open>
  A call of the adapter either throws or returns a promise. Beside that outcome the
  model gives the requests handed to the transport, in order, the state of the world
  after them, and the caller's params as the call leaves them once its promise has settled.
\<close>

datatype 'a outcome = Thrown error | Returned "'a promise"

record 'w Run =
  outcome :: "result outcome"
  calls :: "Request list"
  world :: 'w
  params_after :: Params

definition dataProvider ::
  "string \<Rightarrow> 'w httpClient \<Rightarrow> 'w \<Rightarrow> string \<Rightarrow> string \<Rightarrow> Params \<Rightarrow> 'w Run" where
  "dataProvider apiUrl httpClient w type resource params =
     (if type = UPDATE_MANY then
        (let requests =
               map (\<lambda>id. \<lparr>url = [Lit apiUrl, Lit ''/'', Lit resource, Lit ''/'', Interp id],
                           options = \<lparr>http_method = Some ''PATCH'',
                                      body = Some (JSON_stringify (JObj (data params)))\<rparr>\<rparr>)
                   (ids params);
             (responses, w') = issue httpClient w requests
         in \<lparr>outcome = Returned (then_p (Promise_all responses)
                                    (\<lambda>responses. Inr (Result (JArr (map json responses)) None))),
             calls = requests, world = w', params_after = params\<rparr>)
      else if type = DELETE_MANY then
        (let requests =
               map (\<lambda>id. \<lparr>url = [Lit apiUrl, Lit ''/'', Lit resource, Lit ''/'', Interp id],
                           options = \<lparr>http_method = Some ''DELETE'', body = None\<rparr>\<rparr>)
                   (ids params);
             (responses, w') = issue httpClient w requests
         in \<lparr>outcome = Returned (then_p (Promise_all responses)
                                    (\<lambda>responses. Inr (Result (JArr (map json responses)) None))),
             calls = requests, world = w', params_after = params\<rparr>)
      else
        (case convertDataRequestToHTTP apiUrl type resource params of
           Inl e \<Rightarrow> \<lparr>outcome = Thrown e, calls = [], world = w, params_after = params\<rparr>
         | Inr (request, params1) \<Rightarrow>
             (let (p, w') = httpClient w (url request) (options request);
                  q = then_p p (\<lambda>response.
                        map_sum id fst (convertHTTPResponse response type resource params1))
              in \<lparr>outcome = Returned q, calls = [request], world = w',
                  params_after =
                    (case settlement p of
                       Inl e \<Rightarrow> params1
                     | Inr response \<Rightarrow>
                         (case convertHTTPResponse response type resource params1 of
                            Inl e \<Rightarrow> params1
                          | Inr (r, params2) \<Rightarrow> params2))\<rparr>)))"


section \<open>Observations on requests and results\<close>

text \<open>
  The fields a request carries to the server: the keys of every encoded query mapping of
  its URL and the top-level keys of the serialised body.
\<close>

fun query_keys :: "url \<Rightarrow> string list" where
  "query_keys [] = []"
| "query_keys (Stringify q # parts) = map fst q @ query_keys parts"
| "query_keys (part # parts) = query_keys parts"

fun body_keys :: "json_text option \<Rightarrow> string list" where
  "body_keys (Some (JSON_stringify (JObj ob))) = map fst ob"
| "body_keys b = []"

definition request_fields :: "Request \<Rightarrow> string list" where
  "request_fields r = query_keys (url r) @ body_keys (body (options r))"

text \<open>The request that a bulk operation hands to the transport for one id.\<close>

definition bulk_request :: "string \<Rightarrow> string \<Rightarrow> string \<Rightarrow> Params \<Rightarrow> jsval \<Rightarrow> Request" where
  "bulk_request apiUrl type resource params i =
     \<lparr>url = [Lit apiUrl, Lit ''/'', Lit resource, Lit ''/'', Interp i],
      options = (if type = UPDATE_MANY
                 then \<lparr>http_method = Some ''PATCH'',
                       body = Some (JSON_stringify (JObj (data params)))\<rparr>
                 else \<lparr>http_method = Some ''DELETE'', body = None\<rparr>)\<rparr>"

text \<open>The records of a result: the elements of a sequence, or the one record.\<close>

fun records_of :: "result \<Rightarrow> jsval list" where
  "records_of (Result (JArr ds) t) = ds"
| "records_of (Result d t) = [d]"

text \<open>
  The identifier of a record of the server is the value of its \<^verbatim>\<open>_id\<close>. A record
  exposes the identifier \<open>i\<close> when it holds \<open>i\<close> under the key \<^verbatim>\<open>id\<close> and has no key
  \<^verbatim>\<open>_id\<close>.
\<close>

fun identifier_of :: "jsval \<Rightarrow> jsval" where
  "identifier_of (JObj ob) = get ob ''_id''"
| "identifier_of v = JUndefined"

fun exposes :: "jsval \<Rightarrow> jsval \<Rightarrow> bool" where
  "exposes i (JObj ob) = (map_of ob ''id'' = Some i \<and> ''_id'' \<notin> set (map fst ob))"
| "exposes i v = False"

text \<open>
  A record of a list-like response whose \<^verbatim>\<open>_id\<close> is truthy, and a record whose
  \<^verbatim>\<open>_id\<close> is neither null nor undefined.
\<close>

fun identified :: "jsval \<Rightarrow> bool" where
  "identified (JObj ob) = truthy (get ob ''_id'')"
| "identified v = False"

fun has_identifier :: "jsval \<Rightarrow> bool" where
  "has_identifier (JObj ob) = not_null (get ob ''_id'')"
| "has_identifier v = False"

text \<open>
  The wire contract of the spec (6): a list-like body
  \<^verbatim>\<open>{ docs: [...], items: { total: N } }\<close> of identified records for the list-like
  kinds, a record object with an \<^verbatim>\<open>_id\<close> for the kinds that read one record. The records
  of the server in a response are the \<^verbatim>\<open>docs\<close>, or the one record.
\<close>

definition list_like :: "string \<Rightarrow> bool" where
  "list_like type = (type = GET_LIST \<or> type = GET_MANY \<or> type = GET_MANY_REFERENCE)"

fun is_object :: "jsval \<Rightarrow> bool" where
  "is_object (JObj ob) = True"
| "is_object v = False"

fun list_body :: "jsval \<Rightarrow> bool" where
  "list_body (JObj j) =
     (case get j ''docs'' of
        JArr ds \<Rightarrow> list_all identified ds \<and> is_object (get j ''items'')
      | _ \<Rightarrow> False)"
| "list_body v = False"

definition documented_response :: "string \<Rightarrow> Response \<Rightarrow> bool" where
  "documented_response type response =
     (if list_like type then list_body (json response)
      else has_identifier (json response))"

definition server_records :: "string \<Rightarrow> Response \<Rightarrow> jsval list" where
  "server_records type response =
     (if list_like type
      then (case property (json response) ''docs'' of Inr (JArr ds) \<Rightarrow> ds | _ \<Rightarrow> [])
      else [json response])"

text \<open>The five housekeeping keys that data cleaning removes.\<close>

definition housekeeping :: "string set" where
  "housekeeping = {''id'', ''createdAt'', ''updatedAt'', ''deletedAt'', ''isDeleted''}"

text \<open>An object with keys: the values that flattening takes apart.\<close>

fun has_keys :: "jsval \<Rightarrow> bool" where
  "has_keys (JObj (kv # kvs)) = True"
| "has_keys v = False"

text \<open>
  The caller's filter as the query builder has it when it flattens it: \<^verbatim>\<open>$sort\<close>
  assigned when the sort field is non-empty, then \<^verbatim>\<open>q\<close> renamed to \<^verbatim>\<open>$term\<close> unless it
  is null or undefined. The last entry of the query is \<^verbatim>\<open>$sort\<close> with \<^verbatim>\<open>_id\<close> for
  \<^verbatim>\<open>id\<close>, and \<open>built_query\<close> is the query in these terms.
\<close>

definition with_sort :: "Sort \<Rightarrow> object \<Rightarrow> object" where
  "with_sort s ob =
     (case field s of
        None \<Rightarrow> ob
      | Some f \<Rightarrow>
          if f = [] then ob
          else AList.update ''$sort'' (JStr ((if order s = ''DESC'' then ''-'' else []) @ f)) ob)"

definition with_term :: "object \<Rightarrow> object" where
  "with_term ob =
     (if not_null (get ob ''q'')
      then AList.delete ''q'' (AList.update ''$term'' (get ob ''q'') ob)
      else ob)"

definition filter_after :: "Params \<Rightarrow> object" where
  "filter_after params = with_term (with_sort (sort_p params) (filter_p params))"

definition sort_entry :: "Params \<Rightarrow> object" where
  "sort_entry params =
     (case field (sort_p params) of
        None \<Rightarrow> []
      | Some f \<Rightarrow>
          if f = [] then []
          else [(''$sort'', JStr ((if order (sort_p params) = ''DESC'' then ''-'' else [])
                                  @ (if f = ''id'' then ''_id'' else f)))])"

definition built_query :: "Params \<Rightarrow> object" where
  "built_query params =
     Object_assign_all (flattenObject (JObj (filter_after params)) [])
       [[(''$limit'', perPage (pagination params)), (''$page'', page (pagination params))],
        sort_entry params]"

section \<open>Sample inputs\<close>

definition client0 :: "nat httpClient" where
  "client0 w u opts =
     (Promise w (if w = 1 then Inl (TransportError ''boom'')
                 else Inr \<lparr>json = JObj [(''_id'', JStr ''a''), (''name'', JStr ''x'')]\<rparr>),
      Suc w)"

definition params0 :: Params where
  "params0 = \<lparr>pagination = \<lparr>page = JNum 1, perPage = JNum 24\<rparr>,
              sort_p = \<lparr>field = Some ''title'', order = ''DESC''\<rparr>,
              filter_p = [], id_p = JStr ''1'', ids = [JStr ''1'', JStr ''2''],
              target = ''author'', data = [(''id'', JNum 1), (''name'', JStr ''x'')]\<rparr>"

text \<open>
  The list scenario of the spec (8), the response and the request of an update of
  \<open>params0\<close>, and a reference query whose target is \<^verbatim>\<open>id\<close>.
\<close>

definition list_response :: Response where
  "list_response =
     \<lparr>json = JObj [(''docs'', JArr [JObj [(''_id'', JStr ''1''), (''title'', JStr ''A'')]]),
                   (''items'', JObj [(''total'', JNum 1)])]\<rparr>"

definition list_client :: "nat httpClient" where
  "list_client w u opts = (Promise w (Inr list_response), Suc w)"

definition list_request :: Request where
  "list_request =
     \<lparr>url = [Lit ''base'', Lit ''/'', Lit ''posts'', Lit ''?'',
              Stringify [(''$sort'', JStr ''-title''), (''$limit'', JNum 24),
                         (''$page'', JNum 1)]],
      options = no_options\<rparr>"

definition update_response :: Response where
  "update_response = \<lparr>json = JObj [(''_id'', JStr ''a''), (''name'', JStr ''x'')]\<rparr>"

definition update_request :: Request where
  "update_request =
     \<lparr>url = [Lit ''base'', Lit ''/'', Lit ''posts'', Lit ''/'', Interp (JStr ''1'')],
      options = \<lparr>http_method = Some ''PUT'',
                 body = Some (JSON_stringify (JObj [(''name'', JStr ''x'')]))\<rparr>\<rparr>"

definition ref_request :: Request where
  "ref_request =
     \<lparr>url = [Lit ''base'', Lit ''/'', Lit ''comments'', Lit ''?'',
              Stringify [(''$sort'', JStr ''-title''), (''$limit'', JNum 24),
                         (''$page'', JNum 1), (''id'', JStr ''1'')]],
      options = no_options\<rparr>"

section \<open>Objects: keys and values after assignment\<close>

lemmas kind_defs = GET_LIST_def GET_ONE_def GET_MANY_def GET_MANY_REFERENCE_def CREATE_def
  UPDATE_def UPDATE_MANY_def DELETE_def DELETE_MANY_def

lemma Object_assign_keys:
  "fst ` set (Object_assign t s) = fst ` set t \<union> fst ` set s"
  unfolding Object_assign_def
proof (induction s arbitrary: t)
  case Nil
  then show ?case by simp
next
  case (Cons p s)
  obtain k v where p: "p = (k, v)" by (cases p)
  show ?case by (simp add: p Cons.IH dom_update Un_assoc)
qed

lemma Object_assign_distinct:
  "distinct (map fst t) \<Longrightarrow> distinct (map fst (Object_assign t s))"
  unfolding Object_assign_def
  by (induction s arbitrary: t) (auto simp add: distinct_update)

lemma Object_assign_all_keys:
  "fst ` set (Object_assign_all t ss) = fst ` set t \<union> (\<Union>s \<in> set ss. fst ` set s)"
  unfolding Object_assign_all_def
  by (induction ss arbitrary: t) (auto simp add: Object_assign_keys)

lemma Object_assign_all_distinct:
  "distinct (map fst t) \<Longrightarrow> distinct (map fst (Object_assign_all t ss))"
  unfolding Object_assign_all_def
  by (induction ss arbitrary: t) (auto simp add: Object_assign_distinct)

lemma map_of_Object_assign_notin:
  "k \<notin> fst ` set s \<Longrightarrow> map_of (Object_assign t s) k = map_of t k"
  unfolding Object_assign_def
  by (induction s arbitrary: t) (auto simp add: update_conv')

lemma map_of_Object_assign_single:
  "map_of (Object_assign t [(k, v)]) k = Some v"
  by (simp add: Object_assign_def update_conv')

lemma flattenObject_distinct: "distinct (map fst (flattenObject v path))"
  by (subst flattenObject.simps)
     (auto simp add: Object_assign_all_distinct split: jsval.splits list.splits)

lemma count_key_distinct:
  "distinct (map fst q) \<Longrightarrow> map_of q k = Some v \<Longrightarrow> length (filter (\<lambda>kv. fst kv = k) q) = 1"
proof (induction q)
  case Nil
  then show ?case by simp
next
  case (Cons p q)
  show ?case
  proof (cases "fst p = k")
    case True
    with Cons.prems have "k \<notin> fst ` set q" by auto
    then have "filter (\<lambda>kv. fst kv = k) q = []" by (auto simp add: filter_empty_conv)
    with True show ?thesis by simp
  next
    case False
    with Cons show ?thesis by (cases p) auto
  qed
qed

section \<open>Flattening: keys and values\<close>

lemma flattenObject_leaf:
  "\<not> has_keys v \<Longrightarrow> path \<noteq> [] \<Longrightarrow> flattenObject v path = [(join path ''.'', v)]"
  by (subst flattenObject.simps) (auto split: jsval.splits list.splits)

lemma flattenObject_keys:
  "k \<in> fst ` set (flattenObject v path) \<Longrightarrow> \<exists>rest. k = join (path @ rest) ''.''"
proof (induction v path arbitrary: k rule: flattenObject.induct)
  case (1 v path)
  show ?case
  proof (cases "has_keys v")
    case True
    then obtain kv kvs where v: "v = JObj (kv # kvs)"
      by (cases v rule: has_keys.cases) auto
    from "1.prems" obtain key where key: "key \<in> set (Object_keys (kv # kvs))"
      and k: "k \<in> fst ` set (flattenObject (get (kv # kvs) key) (path @ [key]))"
      by (subst (asm) flattenObject.simps) (auto simp add: v Object_assign_all_keys)
    from "1.IH" [OF v refl key k] obtain rest
      where "k = join ((path @ [key]) @ rest) ''.''" by blast
    then have "k = join (path @ (key # rest)) ''.''" by simp
    then show ?thesis by blast
  next
    case False
    with "1.prems" have "k = join path ''.''"
      by (subst (asm) flattenObject.simps) (auto split: jsval.splits list.splits if_splits)
    then have "k = join (path @ []) ''.''" by simp
    then show ?thesis by blast
  qed
qed

lemma flattenObject_key_of_path:
  assumes "k \<in> fst ` set (flattenObject v [key])" and "CHR ''.'' \<notin> set k"
  shows "k = key"
proof -
  from flattenObject_keys [OF assms(1)] obtain rest where r: "k = join ([key] @ rest) ''.''"
    by blast
  show ?thesis
  proof (cases rest)
    case Nil
    with r show ?thesis by simp
  next
    case (Cons y ys)
    with r have "CHR ''.'' \<in> set k" by simp
    with assms(2) show ?thesis by simp
  qed
qed

lemma flattenObject_root_keys:
  assumes "k \<in> fst ` set (flattenObject (JObj f) [])" and "CHR ''.'' \<notin> set k"
  shows "k \<in> fst ` set f"
proof (cases f)
  case Nil
  with assms(1) show ?thesis by (subst (asm) flattenObject.simps) simp
next
  case (Cons kv kvs)
  with assms(1) obtain key where key: "key \<in> set (Object_keys f)"
    and k: "k \<in> fst ` set (flattenObject (get f key) [key])"
    by (subst (asm) flattenObject.simps) (auto simp add: Object_assign_all_keys)
  from flattenObject_key_of_path [OF k assms(2)] key show ?thesis
    by (simp add: Object_keys_def)
qed

lemma Object_assign_all_value:
  assumes "\<forall>s \<in> set ss. s = [(k, v)] \<or> k \<notin> fst ` set s"
    and "map_of t k = Some v \<or> [(k, v)] \<in> set ss"
  shows "map_of (Object_assign_all t ss) k = Some v"
  using assms unfolding Object_assign_all_def
proof (induction ss arbitrary: t)
  case Nil
  then show ?case by simp
next
  case (Cons s ss)
  have "map_of (Object_assign t s) k = Some v \<or> [(k, v)] \<in> set ss"
  proof (cases "s = [(k, v)]")
    case True
    then show ?thesis by (simp add: map_of_Object_assign_single)
  next
    case False
    with Cons.prems have "k \<notin> fst ` set s" by simp
    from map_of_Object_assign_notin [OF this] Cons.prems(2) False show ?thesis by auto
  qed
  with Cons.IH [of "Object_assign t s"] Cons.prems(1) show ?case by simp
qed

lemma flattenObject_root_value:
  assumes m: "map_of f k = Some v" and dot: "CHR ''.'' \<notin> set k" and leaf: "\<not> has_keys v"
  shows "map_of (flattenObject (JObj f) []) k = Some v"
proof -
  from m obtain kv kvs where f: "f = kv # kvs" by (cases f) auto
  let ?g = "\<lambda>key. flattenObject (get f key) ([] @ [key])"
  have flat: "flattenObject (JObj f) [] = Object_assign_all [] (map ?g (Object_keys f))"
    by (subst flattenObject.simps) (simp add: f)
  from m have "k \<in> fst ` set f" by (rule map_of_SomeD [THEN imageI, of _ _ _ fst, simplified])
  then have kin: "k \<in> set (Object_keys f)" by (simp add: Object_keys_def)
  from m have "get f k = v" by (simp add: get_def)
  with leaf have gk: "?g k = [(k, v)]" by (simp add: flattenObject_leaf)
  have others: "\<forall>s \<in> set (map ?g (Object_keys f)). s = [(k, v)] \<or> k \<notin> fst ` set s"
  proof
    fix s assume "s \<in> set (map ?g (Object_keys f))"
    then obtain key where s: "s = ?g key" by auto
    show "s = [(k, v)] \<or> k \<notin> fst ` set s"
    proof (cases "key = k")
      case True
      with s gk show ?thesis by simp
    next
      case False
      with flattenObject_key_of_path [of k "get f key" key] dot s show ?thesis by auto
    qed
  qed
  from gk kin have "[(k, v)] \<in> set (map ?g (Object_keys f))" by force
  with Object_assign_all_value [OF others] flat show ?thesis by simp
qed

section \<open>The query builder, step by step\<close>

lemma returns_itself_object: "returns_itself (JObj ob) = (ob = [])"
  by (cases ob) (simp_all add: returns_itself_def)

lemma getQueryForParams_eq:
  "getQueryForParams params =
     ((params\<lparr>filter_p := if filter_after params = [] then built_query params
                            else filter_after params\<rparr>,
       filter_after params = []),
      built_query params)"
  by (cases "field (sort_p params)")
     (simp_all add: getQueryForParams_def filter_after_def with_sort_def with_term_def
        built_query_def sort_entry_def sort_value_def returns_itself_object Let_def)

lemma getQueryForParams_snd: "snd (getQueryForParams params) = built_query params"
  by (simp add: getQueryForParams_eq)

lemma get_update_other: "k \<noteq> k' \<Longrightarrow> get (AList.update k' v ob) k = get ob k"
  by (simp add: get_def update_conv')


lemma filter_after_q:
  "not_null (get (filter_p params) ''q'') \<Longrightarrow>
     ''q'' \<notin> fst ` set (filter_after params) \<and>
     map_of (filter_after params) ''$term'' = Some (get (filter_p params) ''q'')"
  by (auto simp add: filter_after_def with_sort_def with_term_def get_update_other
       delete_notin_dom delete_conv' update_conv' split: option.splits)

lemma query_keys_of:
  "fst ` set (snd (getQueryForParams params)) =
     fst ` set (flattenObject (JObj (filter_after params)) []) \<union> {''$limit'', ''$page''}
       \<union> fst ` set (sort_entry params)"
  by (simp add: getQueryForParams_snd built_query_def Object_assign_all_keys Un_commute
      Un_left_commute insert_commute)

lemma sort_entry_keys: "fst ` set (sort_entry params) \<subseteq> {''$sort''}"
  by (auto simp add: sort_entry_def split: option.splits if_splits)

lemma query_value_of:
  assumes "k \<noteq> ''$limit''" "k \<noteq> ''$page''" "k \<noteq> ''$sort''"
  shows "map_of (snd (getQueryForParams params)) k =
           map_of (flattenObject (JObj (filter_after params)) []) k"
proof -
  from assms sort_entry_keys [of params] have "k \<notin> fst ` set (sort_entry params)" by auto
  with assms show ?thesis
    by (simp add: getQueryForParams_snd built_query_def Object_assign_all_def
        map_of_Object_assign_notin)
qed








lemma with_sort_keys: "fst ` set (with_sort s ob) \<subseteq> fst ` set ob \<union> {''$sort''}"
  by (auto simp add: with_sort_def dom_update split: option.splits)

lemma with_term_keys: "fst ` set (with_term ob) \<subseteq> fst ` set ob \<union> {''$term''}"
proof -
  have "fst ` set (AList.delete ''q'' (AList.update ''$term'' v ob))
          \<subseteq> fst ` set (AList.update ''$term'' v ob)" for v
    by (auto simp add: AList.delete_eq)
  then show ?thesis by (auto simp add: with_term_def dom_update)
qed

lemma filter_after_keys:
  "fst ` set (filter_after params) \<subseteq> fst ` set (filter_p params) \<union> {''$sort'', ''$term''}"
  using with_term_keys [of "with_sort (sort_p params) (filter_p params)"]
    with_sort_keys [of "sort_p params" "filter_p params"]
  by (auto simp add: filter_after_def)

lemma query_id_from_filter:
  assumes "''id'' \<in> fst ` set (snd (getQueryForParams params))"
  shows "''id'' \<in> fst ` set (filter_p params)"
proof -
  from assms sort_entry_keys [of params]
  have "''id'' \<in> fst ` set (flattenObject (JObj (filter_after params)) [])"
    by (auto simp add: query_keys_of)
  then have "''id'' \<in> fst ` set (filter_after params)"
    by (rule flattenObject_root_keys) simp
  with filter_after_keys [of params] show ?thesis by auto
qed

lemma cleanData_keys: "set (body_keys (Some (cleanData params))) \<inter> housekeeping = {}"
  by (auto simp add: cleanData_def housekeeping_def delete_keys)

lemma query_keys_join:
  "set (query_keys (join (map (\<lambda>an_id. [Stringify [(''_id'', an_id)]]) xs) [Lit ''&'']))
     \<subseteq> {''_id''}"
  by (induction xs rule: induct_list012) auto

lemma query_keys_append: "query_keys (xs @ ys) = query_keys xs @ query_keys ys"
  by (induction xs rule: query_keys.induct) auto

text \<open>The request and the params that request translation gives for each kind.\<close>

lemma convert_list:
  "convertDataRequestToHTTP apiUrl GET_LIST resource params =
     Inr (\<lparr>url = [Lit apiUrl, Lit ''/'', Lit resource, Lit ''?'',
                   Stringify (built_query params)],
            options = no_options\<rparr>,
          params\<lparr>filter_p := if filter_after params = [] then built_query params
                                else filter_after params\<rparr>)"
  by (simp add: convertDataRequestToHTTP_def getQueryForParams_eq)

lemma convert_reference:
  "convertDataRequestToHTTP apiUrl GET_MANY_REFERENCE resource params =
     Inr (\<lparr>url = [Lit apiUrl, Lit ''/'', Lit resource, Lit ''?'',
                   Stringify (AList.update (target params) (id_p params)
                                (built_query params))],
            options = no_options\<rparr>,
          params\<lparr>filter_p :=
                   if filter_after params = []
                   then AList.update (target params) (id_p params) (built_query params)
                   else filter_after params\<rparr>)"
  by (simp add: convertDataRequestToHTTP_def getQueryForParams_eq kind_defs Let_def)

lemma convert_other:
  assumes "type \<noteq> GET_LIST" "type \<noteq> GET_MANY_REFERENCE"
    and "convertDataRequestToHTTP apiUrl type resource params = Inr (r, p')"
  shows "p' = params"
  using assms by (auto simp add: convertDataRequestToHTTP_def split: if_splits)

lemma convert_request_id:
  assumes c: "convertDataRequestToHTTP apiUrl type resource params = Inr (r, p')"
    and i: "''id'' \<in> set (request_fields r)"
  shows "((type = GET_LIST \<or> type = GET_MANY_REFERENCE) \<and>
            ''id'' \<in> fst ` set (filter_p params)) \<or>
         (type = GET_MANY_REFERENCE \<and> target params = ''id'')"
proof -
  have clean: "''id'' \<notin> set (body_keys (Some (cleanData params)))"
    using cleanData_keys [of params] by (auto simp add: housekeeping_def)
  have many: "''id'' \<notin> set (query_keys
      (join (map (\<lambda>an_id. [Stringify [(''_id'', an_id)]]) (ids params)) [Lit ''&'']))"
    using query_keys_join [of "ids params"] by auto
  have qid: "''id'' \<in> fst ` set (built_query params) \<Longrightarrow> ''id'' \<in> fst ` set (filter_p params)"
    using query_id_from_filter [of params] by (simp add: getQueryForParams_snd)
  consider (l) "type = GET_LIST" | (r) "type = GET_MANY_REFERENCE"
    | (o) "type \<noteq> GET_LIST" "type \<noteq> GET_MANY_REFERENCE" by blast
  then show ?thesis
  proof cases
    case l
    with c i qid show ?thesis
      by (auto simp add: convert_list request_fields_def no_options_def)
  next
    case r
    with c i qid show ?thesis
      by (auto simp add: convert_reference request_fields_def no_options_def dom_update)
  next
    case o
    with c i clean many show ?thesis
      by (auto simp add: convertDataRequestToHTTP_def request_fields_def no_options_def
          query_keys_append split: if_splits)
  qed
qed

section \<open>Unsupported kinds and empty bulk calls\<close>

text \<open>
  C7. For every operation kind outside the nine recognised kinds the adapter throws, when
  it is called and not through its promise, the error whose message is
  \<^verbatim>\<open>Unsupported fetch action type\<close> followed by the kind; the transport is not called,
  the world and the caller's params stay as they were.
\<close>

theorem unsupported_kind_throws:
  assumes "type \<notin> {GET_LIST, GET_ONE, GET_MANY, GET_MANY_REFERENCE, CREATE, UPDATE,
                     UPDATE_MANY, DELETE, DELETE_MANY}"
  shows "dataProvider apiUrl httpClient w type resource params =
           \<lparr>outcome = Thrown (Error (''Unsupported fetch action type '' @ type)),
            calls = [], world = w, params_after = params\<rparr>"
  using assms by (simp add: dataProvider_def convertDataRequestToHTTP_def)

theorem unsupported_kind_throws_witness:
  "''PATCH_ALL'' \<notin> {GET_LIST, GET_ONE, GET_MANY, GET_MANY_REFERENCE, CREATE, UPDATE,
                     UPDATE_MANY, DELETE, DELETE_MANY} \<and>
   dataProvider ''base'' client0 0 ''PATCH_ALL'' ''posts'' params0 =
     \<lparr>outcome = Thrown (Error ''Unsupported fetch action type PATCH_ALL''),
      calls = [], world = 0, params_after = params0\<rparr>"
proof -
  have h: "''PATCH_ALL'' \<notin> {GET_LIST, GET_ONE, GET_MANY, GET_MANY_REFERENCE, CREATE, UPDATE,
                     UPDATE_MANY, DELETE, DELETE_MANY}"
    by (simp add: kind_defs)
  from unsupported_kind_throws [OF h, of "''base''" client0 0 "''posts''" params0] h
  show ?thesis by simp
qed

text \<open>
  C10. Update-many and delete-many with an empty sequence of ids return a promise
  fulfilled with the result whose data is the empty sequence, and hand no request to the
  transport.
\<close>

theorem empty_bulk_no_op:
  assumes "type = UPDATE_MANY \<or> type = DELETE_MANY" and "ids params = []"
  shows "dataProvider apiUrl httpClient w type resource params =
           \<lparr>outcome = Returned (Promise 0 (Inr (Result (JArr []) None))),
            calls = [], world = w, params_after = params\<rparr>"
  using assms by (auto simp add: dataProvider_def Promise_all_def)

theorem empty_bulk_no_op_witness:
  "(DELETE_MANY = UPDATE_MANY \<or> DELETE_MANY = DELETE_MANY) \<and>
   ids (params0\<lparr>ids := []\<rparr>) = [] \<and>
   dataProvider ''base'' client0 0 DELETE_MANY ''posts'' (params0\<lparr>ids := []\<rparr>) =
     \<lparr>outcome = Returned (Promise 0 (Inr (Result (JArr []) None))),
      calls = [], world = 0, params_after = params0\<lparr>ids := []\<rparr>\<rparr>"
  using empty_bulk_no_op [of DELETE_MANY "params0\<lparr>ids := []\<rparr>" "''base''" client0 0 "''posts''"]
  by simp

section \<open>Sort translation\<close>

text \<open>
  C3. For every params with a non-empty sort field the built query has exactly one
  \<^verbatim>\<open>$sort\<close> entry; its value is the field name, with \<^verbatim>\<open>_id\<close> in place of the name
  \<^verbatim>\<open>id\<close>, prefixed with \<^verbatim>\<open>-\<close> when the order is DESC and unprefixed otherwise.
\<close>

theorem sort_translation:
  assumes "field (sort_p params) = Some f" and "f \<noteq> []"
  shows "map_of (snd (getQueryForParams params)) ''$sort'' =
           Some (JStr ((if order (sort_p params) = ''DESC'' then ''-'' else [])
                       @ (if f = ''id'' then ''_id'' else f))) \<and>
         length (filter (\<lambda>kv. fst kv = ''$sort'') (snd (getQueryForParams params))) = 1"
proof -
  let ?q = "snd (getQueryForParams params)"
  have d: "distinct (map fst ?q)"
    by (simp add: getQueryForParams_def Let_def Object_assign_all_distinct flattenObject_distinct)
  have m: "map_of ?q ''$sort'' =
           Some (JStr ((if order (sort_p params) = ''DESC'' then ''-'' else [])
                       @ (if f = ''id'' then ''_id'' else f)))"
    using assms
    by (simp add: getQueryForParams_def Let_def Object_assign_all_def sort_value_def
        map_of_Object_assign_single)
  from count_key_distinct [OF d m] m show ?thesis by simp
qed

theorem sort_translation_witness:
  "field (sort_p params0) = Some ''title'' \<and> ''title'' \<noteq> [] \<and>
   map_of (snd (getQueryForParams params0)) ''$sort'' = Some (JStr ''-title'') \<and>
   length (filter (\<lambda>kv. fst kv = ''$sort'') (snd (getQueryForParams params0))) = 1 \<and>
   map_of (snd (getQueryForParams
      (params0\<lparr>sort_p := \<lparr>field = Some ''id'', order = ''ASC''\<rparr>\<rparr>))) ''$sort'' = Some (JStr ''_id'')"
  using sort_translation [of params0 "''title''"]
    sort_translation [of "params0\<lparr>sort_p := \<lparr>field = Some ''id'', order = ''ASC''\<rparr>\<rparr>" "''id''"]
  by (simp add: params0_def)

section \<open>Create\<close>

lemma CREATE_distinct:
  "CREATE \<noteq> GET_LIST" "CREATE \<noteq> GET_MANY" "CREATE \<noteq> GET_MANY_REFERENCE"
  "CREATE \<noteq> UPDATE_MANY" "CREATE \<noteq> DELETE_MANY" "CREATE \<noteq> GET_ONE" "CREATE \<noteq> UPDATE"
  by (simp_all add: kind_defs)

text \<open>
  C9. For every create call the data of the result is the caller's \<^verbatim>\<open>params.data\<close>
  with the value of its \<^verbatim>\<open>_id\<close> assigned to the key \<^verbatim>\<open>id\<close> and the key \<^verbatim>\<open>_id\<close>
  deleted, whatever the response is: the response translator gives it for every response,
  and the promise of the adapter is the transport's promise of the POST request with
  that result in place of the response.
\<close>

theorem create_result_from_params:
  "convertHTTPResponse response CREATE resource params =
     Inr (Result (JObj (AList.delete ''_id''
                          (AList.update ''id'' (get (data params) ''_id'') (data params))))
                 None,
          params\<lparr>data := AList.delete ''_id''
                    (AList.update ''id'' (get (data params) ''_id'') (data params))\<rparr>) \<and>
   outcome (dataProvider apiUrl httpClient w CREATE resource params) =
     Returned (then_p (fst (httpClient w [Lit apiUrl, Lit ''/'', Lit resource]
                             \<lparr>http_method = Some ''POST'', body = Some (cleanData params)\<rparr>))
                 (\<lambda>response. Inr (Result (JObj (AList.delete ''_id''
                          (AList.update ''id'' (get (data params) ''_id'') (data params))))
                 None)))"
  by (simp add: convertHTTPResponse_def dataProvider_def convertDataRequestToHTTP_def
      CREATE_distinct Let_def split_beta)

section \<open>List-like responses\<close>

text \<open>
  C2. The claim has every record of \<^verbatim>\<open>docs\<close> translated, whatever its \<^verbatim>\<open>_id\<close>. The
  response translator chains the assignment, the deletion and the record with
  \<^verbatim>\<open>&&\<close>: at a record whose \<^verbatim>\<open>_id\<close> is \<^verbatim>\<open>0\<close> the result holds \<^verbatim>\<open>0\<close> in place
  of the record.
\<close>

theorem list_response_falsy_id:
  "convertHTTPResponse
     \<lparr>json = JObj [(''docs'', JArr [JObj [(''_id'', JNum 0), (''name'', JStr ''x'')]]),
                   (''items'', JObj [(''total'', JNum 1)])]\<rparr>
     GET_LIST ''posts'' params0 =
   Inr (Result (JArr [JNum 0]) (Some (JNum 1)), params0)"
  by (simp add: convertHTTPResponse_def get_def)

section \<open>Bulk fan-out\<close>

lemma first_rejection_None:
  "first_rejection ps = None \<longleftrightarrow> (\<forall>p \<in> set ps. \<exists>r. settlement p = Inr r)"
  by (induction ps rule: first_rejection.induct) (auto split: option.splits)

lemma first_rejection_Some:
  "first_rejection ps = Some (t, e) \<Longrightarrow>
     Promise t (Inl e) \<in> set ps \<and>
     (\<forall>p \<in> set ps. \<forall>e'. settlement p = Inl e' \<longrightarrow> t \<le> settled_at p)"
proof (induction ps arbitrary: t e rule: first_rejection.induct)
  case 1
  then show ?case by simp
next
  case (2 t' v ps)
  then show ?case by simp
next
  case (3 t' e' ps)
  show ?case
  proof (cases "first_rejection ps")
    case None
    then have "\<forall>p \<in> set ps. \<exists>r. settlement p = Inr r" by (simp add: first_rejection_None)
    moreover from None "3.prems" have "t = t'" "e = e'" by simp_all
    ultimately show ?thesis by auto
  next
    case (Some te)
    obtain t1 e1 where te: "te = (t1, e1)" by (cases te)
    note ih = "3.IH" [of t1 e1, unfolded Some te, simplified]
    show ?thesis
    proof (cases "t1 < t'")
      case True
      with "3.prems" Some te have "t = t1" "e = e1" by simp_all
      with ih True show ?thesis by auto
    next
      case False
      with "3.prems" Some te have "t = t'" "e = e'" by simp_all
      with ih False show ?thesis by fastforce
    qed
  qed
qed

lemma fulfilled_values_all:
  "\<forall>p \<in> set ps. \<exists>r. settlement p = Inr r \<Longrightarrow>
     fulfilled_values ps = map (\<lambda>p. projr (settlement p)) ps"
  by (induction ps rule: fulfilled_values.induct) auto

lemma issue_length: "length (fst (issue httpClient w rs)) = length rs"
  by (induction rs arbitrary: w) (auto simp add: split_beta)

lemma bulk_run:
  assumes "type = UPDATE_MANY \<or> type = DELETE_MANY"
  shows "dataProvider apiUrl httpClient w type resource params =
     \<lparr>outcome = Returned (then_p
         (Promise_all (fst (issue httpClient w
             (map (bulk_request apiUrl type resource params) (ids params)))))
         (\<lambda>responses. Inr (Result (JArr (map json responses)) None))),
      calls = map (bulk_request apiUrl type resource params) (ids params),
      world = snd (issue httpClient w
             (map (bulk_request apiUrl type resource params) (ids params))),
      params_after = params\<rparr>"
proof -
  have ne: "DELETE_MANY \<noteq> UPDATE_MANY" by (simp add: kind_defs)
  from assms show ?thesis
  proof
    assume "type = UPDATE_MANY"
    then show ?thesis
      by (simp add: dataProvider_def bulk_request_def [abs_def] split_beta Let_def)
  next
    assume "type = DELETE_MANY"
    then show ?thesis
      by (simp add: dataProvider_def bulk_request_def [abs_def] ne split_beta Let_def)
  qed
qed

text \<open>
  C6. For update-many and delete-many the adapter hands the transport one request per id,
  in the order of the ids. When every response is fulfilled, the promise of the adapter is
  fulfilled with the json bodies of the responses as they are, in that order. When some
  response is rejected, the promise is rejected, with the error of a rejected response
  (the one rejected first in time); no result is given.
\<close>

theorem bulk_fan_out:
  assumes kind: "type = UPDATE_MANY \<or> type = DELETE_MANY"
    and run_def: "run = dataProvider apiUrl httpClient w type resource params"
    and responses_def: "responses = fst (issue httpClient w (calls run))"
  shows "calls run = map (bulk_request apiUrl type resource params) (ids params) \<and>
         length responses = length (ids params) \<and>
         ((\<forall>p \<in> set responses. \<exists>r. settlement p = Inr r) \<longrightarrow>
           (\<exists>t. outcome run = Returned (Promise t
              (Inr (Result (JArr (map (\<lambda>p. json (projr (settlement p))) responses)) None))))) \<and>
         ((\<exists>p \<in> set responses. \<exists>e. settlement p = Inl e) \<longrightarrow>
           (\<exists>t e. outcome run = Returned (Promise t (Inl e)) \<and>
                  Promise t (Inl e) \<in> set responses \<and>
                  (\<forall>p \<in> set responses. \<forall>e'. settlement p = Inl e' \<longrightarrow> t \<le> settled_at p)))"
proof -
  note run = bulk_run [OF kind, of apiUrl httpClient w resource params]
  have c: "calls run = map (bulk_request apiUrl type resource params) (ids params)"
    by (simp add: run_def run)
  have l: "length responses = length (ids params)"
    by (simp add: responses_def c issue_length)
  have o: "outcome run = Returned (then_p (Promise_all responses)
         (\<lambda>responses. Inr (Result (JArr (map json responses)) None)))"
    by (simp add: responses_def c) (simp add: run_def run)
  have ok: "(\<forall>p \<in> set responses. \<exists>r. settlement p = Inr r) \<longrightarrow>
           (\<exists>t. outcome run = Returned (Promise t
              (Inr (Result (JArr (map (\<lambda>p. json (projr (settlement p))) responses)) None))))"
  proof
    assume all: "\<forall>p \<in> set responses. \<exists>r. settlement p = Inr r"
    then have "first_rejection responses = None" by (simp add: first_rejection_None)
    with fulfilled_values_all [OF all] show "\<exists>t. outcome run = Returned (Promise t
              (Inr (Result (JArr (map (\<lambda>p. json (projr (settlement p))) responses)) None)))"
      by (simp add: o Promise_all_def comp_def)
  qed
  have ko: "(\<exists>p \<in> set responses. \<exists>e. settlement p = Inl e) \<longrightarrow>
           (\<exists>t e. outcome run = Returned (Promise t (Inl e)) \<and>
                  Promise t (Inl e) \<in> set responses \<and>
                  (\<forall>p \<in> set responses. \<forall>e'. settlement p = Inl e' \<longrightarrow> t \<le> settled_at p))"
  proof
    assume "\<exists>p \<in> set responses. \<exists>e. settlement p = Inl e"
    then obtain p e where "p \<in> set responses" and "settlement p = Inl e" by blast
    then have "\<not> (\<forall>p \<in> set responses. \<exists>r. settlement p = Inr r)" by force
    then have "first_rejection responses \<noteq> None"
      by (simp only: first_rejection_None not_False_eq_True)
    then obtain t e where f: "first_rejection responses = Some (t, e)" by auto
    from first_rejection_Some [OF f] f
    show "\<exists>t e. outcome run = Returned (Promise t (Inl e)) \<and>
                  Promise t (Inl e) \<in> set responses \<and>
                  (\<forall>p \<in> set responses. \<forall>e'. settlement p = Inl e' \<longrightarrow> t \<le> settled_at p)"
      by (simp add: o Promise_all_def)
  qed
  from c l ok ko show ?thesis by blast
qed

theorem bulk_fan_out_witness:
  "(DELETE_MANY = UPDATE_MANY \<or> DELETE_MANY = DELETE_MANY) \<and>
   calls (dataProvider ''base'' client0 0 DELETE_MANY ''posts'' params0) =
     [\<lparr>url = [Lit ''base'', Lit ''/'', Lit ''posts'', Lit ''/'', Interp (JStr ''1'')],
       options = \<lparr>http_method = Some ''DELETE'', body = None\<rparr>\<rparr>,
      \<lparr>url = [Lit ''base'', Lit ''/'', Lit ''posts'', Lit ''/'', Interp (JStr ''2'')],
       options = \<lparr>http_method = Some ''DELETE'', body = None\<rparr>\<rparr>] \<and>
   fst (issue client0 0 (calls (dataProvider ''base'' client0 0 DELETE_MANY ''posts'' params0))) =
     [Promise 0 (Inr \<lparr>json = JObj [(''_id'', JStr ''a''), (''name'', JStr ''x'')]\<rparr>),
      Promise 1 (Inl (TransportError ''boom''))] \<and>
   outcome (dataProvider ''base'' client0 0 DELETE_MANY ''posts'' params0) =
     Returned (Promise 1 (Inl (TransportError ''boom'')))"
proof -
  let ?run = "dataProvider ''base'' client0 0 DELETE_MANY ''posts'' params0"
  let ?responses = "fst (issue client0 0 (calls ?run))"
  have ne: "DELETE_MANY \<noteq> UPDATE_MANY" by (simp add: kind_defs)
  have k: "DELETE_MANY = UPDATE_MANY \<or> DELETE_MANY = DELETE_MANY" by simp
  note t = bulk_fan_out [OF k refl refl, of "''base''" client0 0 "''posts''" params0]
  from t have c: "calls ?run =
     [\<lparr>url = [Lit ''base'', Lit ''/'', Lit ''posts'', Lit ''/'', Interp (JStr ''1'')],
       options = \<lparr>http_method = Some ''DELETE'', body = None\<rparr>\<rparr>,
      \<lparr>url = [Lit ''base'', Lit ''/'', Lit ''posts'', Lit ''/'', Interp (JStr ''2'')],
       options = \<lparr>http_method = Some ''DELETE'', body = None\<rparr>\<rparr>]"
    by (simp add: bulk_request_def params0_def ne)
  have r: "?responses =
     [Promise 0 (Inr \<lparr>json = JObj [(''_id'', JStr ''a''), (''name'', JStr ''x'')]\<rparr>),
      Promise 1 (Inl (TransportError ''boom''))]"
    by (simp add: c client0_def)
  have "\<exists>p \<in> set ?responses. \<exists>e. settlement p = Inl e" by (simp add: r)
  with t obtain t' e where "outcome ?run = Returned (Promise t' (Inl e))"
    and "Promise t' (Inl e) \<in> set ?responses" by blast
  then have o: "outcome ?run = Returned (Promise 1 (Inl (TransportError ''boom'')))"
    by (auto simp add: r)
  from k c r o show ?thesis by simp
qed

section \<open>Free-text search\<close>

text \<open>
  C8, as amended. For every filter whose \<^verbatim>\<open>q\<close> is neither null nor undefined the built
  query has no \<^verbatim>\<open>q\<close> key, and its \<^verbatim>\<open>$term\<close> entry holds the value of \<^verbatim>\<open>q\<close>
  unless that value is an object with keys, which flattening spreads over dotted
  \<^verbatim>\<open>$term.\<close> keys as it does for every filter value.
\<close>

theorem q_renamed_to_term:
  assumes "not_null (get (filter_p params) ''q'')"
  shows "''q'' \<notin> fst ` set (snd (getQueryForParams params)) \<and>
         (\<not> has_keys (get (filter_p params) ''q'') \<longrightarrow>
            map_of (snd (getQueryForParams params)) ''$term'' =
              Some (get (filter_p params) ''q''))"
proof -
  note fa = filter_after_q [OF assms]
  have "''q'' \<notin> fst ` set (flattenObject (JObj (filter_after params)) [])"
    using flattenObject_root_keys [of "''q''" "filter_after params"] fa by auto
  moreover have "''q'' \<notin> fst ` set (sort_entry params)"
    using sort_entry_keys [of params] by auto
  ultimately have noq: "''q'' \<notin> fst ` set (snd (getQueryForParams params))"
    by (simp add: query_keys_of)
  have "\<not> has_keys (get (filter_p params) ''q'') \<longrightarrow>
            map_of (snd (getQueryForParams params)) ''$term'' =
              Some (get (filter_p params) ''q'')"
  proof
    assume "\<not> has_keys (get (filter_p params) ''q'')"
    with flattenObject_root_value [of "filter_after params" "''$term''"] fa
    show "map_of (snd (getQueryForParams params)) ''$term'' =
              Some (get (filter_p params) ''q'')"
      by (simp add: query_value_of)
  qed
  with noq show ?thesis by simp
qed

theorem q_renamed_to_term_witness:
  "not_null (get (filter_p (params0\<lparr>filter_p := [(''q'', JStr ''x'')]\<rparr>)) ''q'') \<and>
   ''q'' \<notin> fst ` set (snd (getQueryForParams (params0\<lparr>filter_p := [(''q'', JStr ''x'')]\<rparr>))) \<and>
   \<not> has_keys (get (filter_p (params0\<lparr>filter_p := [(''q'', JStr ''x'')]\<rparr>)) ''q'') \<and>
   map_of (snd (getQueryForParams (params0\<lparr>filter_p := [(''q'', JStr ''x'')]\<rparr>))) ''$term'' =
     Some (JStr ''x'')"
  using q_renamed_to_term [of "params0\<lparr>filter_p := [(''q'', JStr ''x'')]\<rparr>"]
  by (simp add: get_def not_null_def)

text \<open>
  C8 as stated fails: the rename is guarded by \<^verbatim>\<open>params.filter.q != null\<close>. With the
  filter \<^verbatim>\<open>{q: null}\<close> the query keeps the key \<^verbatim>\<open>q\<close> and has no \<^verbatim>\<open>$term\<close>; with
  \<^verbatim>\<open>{q: {a: 1}}\<close> the value is flattened and no key is \<^verbatim>\<open>$term\<close>.
\<close>

theorem q_null_not_renamed:
  "''q'' \<in> fst ` set (snd (getQueryForParams (params0\<lparr>filter_p := [(''q'', JNull)]\<rparr>))) \<and>
   ''$term'' \<notin> fst ` set (snd (getQueryForParams (params0\<lparr>filter_p := [(''q'', JNull)]\<rparr>))) \<and>
   ''$term'' \<notin> fst ` set (snd (getQueryForParams
       (params0\<lparr>filter_p := [(''q'', JObj [(''a'', JNum 1)])]\<rparr>)))"
  by (simp add: getQueryForParams_def params0_def Let_def get_def not_null_def sort_value_def
      flattenObject.simps Object_keys_def Object_assign_all_def Object_assign_def)

section \<open>What request translation does to the params\<close>


lemma list_convert:
  "convertDataRequestToHTTP ''base'' GET_LIST ''posts'' params0 =
     Inr (list_request, params0\<lparr>filter_p := [(''$sort'', JStr ''-title'')]\<rparr>)"
  by (simp add: convertDataRequestToHTTP_def getQueryForParams_def params0_def Let_def get_def
        not_null_def sort_value_def flattenObject.simps Object_keys_def Object_assign_all_def
        Object_assign_def list_request_def returns_itself_def)




section \<open>The field id in requests\<close>

lemma ref_calls:
  "calls (dataProvider ''base'' client0 0 GET_MANY_REFERENCE ''comments''
            (params0\<lparr>target := ''id''\<rparr>)) = [ref_request]"
  by (simp add: dataProvider_def convertDataRequestToHTTP_def getQueryForParams_def params0_def
      Let_def get_def not_null_def sort_value_def flattenObject.simps Object_keys_def
      Object_assign_all_def Object_assign_def kind_defs split_beta ref_request_def
      returns_itself_def)

lemma single_calls:
  assumes "type \<noteq> UPDATE_MANY" "type \<noteq> DELETE_MANY"
    and "r \<in> set (calls (dataProvider apiUrl httpClient w type resource params))"
  shows "\<exists>p'. convertDataRequestToHTTP apiUrl type resource params = Inr (r, p')"
  using assms
  by (auto simp add: dataProvider_def Let_def split_beta split: sum.splits)

text \<open>
  C5, as amended. A request handed to the transport carries a field named \<^verbatim>\<open>id\<close> only
  where the caller supplied that name: as a top-level key of the filter (list,
  get-many-by-reference), as the reference target (get-many-by-reference), or as a key of
  the data of update-many, which is sent as it is. Get-one, get-many, create, update,
  delete and delete-many never send it.
\<close>

theorem id_field_only_from_caller:
  assumes r: "r \<in> set (calls (dataProvider apiUrl httpClient w type resource params))"
    and i: "''id'' \<in> set (request_fields r)"
  shows "((type = GET_LIST \<or> type = GET_MANY_REFERENCE) \<and>
            ''id'' \<in> fst ` set (filter_p params)) \<or>
         (type = GET_MANY_REFERENCE \<and> target params = ''id'') \<or>
         (type = UPDATE_MANY \<and> ''id'' \<in> fst ` set (data params))"
proof (cases "type = UPDATE_MANY \<or> type = DELETE_MANY")
  case True
  from r bulk_run [OF True, of apiUrl httpClient w resource params]
  obtain x where "r = bulk_request apiUrl type resource params x" by auto
  with i True show ?thesis
    by (auto simp add: bulk_request_def request_fields_def split: if_splits)
next
  case False
  with single_calls [OF _ _ r] obtain p'
    where "convertDataRequestToHTTP apiUrl type resource params = Inr (r, p')" by blast
  from convert_request_id [OF this i] show ?thesis by blast
qed

theorem id_field_only_from_caller_witness:
  "ref_request \<in> set (calls (dataProvider ''base'' client0 0 GET_MANY_REFERENCE ''comments''
            (params0\<lparr>target := ''id''\<rparr>))) \<and>
   ''id'' \<in> set (request_fields ref_request) \<and>
   ''id'' \<notin> fst ` set (filter_p (params0\<lparr>target := ''id''\<rparr>)) \<and>
   target (params0\<lparr>target := ''id''\<rparr>) = ''id''"
proof -
  have r: "ref_request \<in> set (calls (dataProvider ''base'' client0 0 GET_MANY_REFERENCE
             ''comments'' (params0\<lparr>target := ''id''\<rparr>)))"
    by (simp add: ref_calls)
  have i: "''id'' \<in> set (request_fields ref_request)"
    by (simp add: ref_request_def request_fields_def no_options_def)
  have f: "''id'' \<notin> fst ` set (filter_p (params0\<lparr>target := ''id''\<rparr>))"
    by (simp add: params0_def)
  from id_field_only_from_caller [OF r i] r i f show ?thesis
    by (auto simp add: kind_defs)
qed

text \<open>
  C5 as stated fails: get-many-by-reference assigns \<^verbatim>\<open>query[params.target]\<close> with no
  translation, so the target \<^verbatim>\<open>id\<close> is sent as the query key \<^verbatim>\<open>id\<close>.
\<close>

theorem reference_target_id_sent:
  "calls (dataProvider ''base'' client0 0 GET_MANY_REFERENCE ''comments''
            (params0\<lparr>target := ''id''\<rparr>)) = [ref_request] \<and>
   request_fields ref_request = [''$sort'', ''$limit'', ''$page'', ''id'']"
  by (simp add: ref_calls) (simp add: ref_request_def request_fields_def no_options_def)

section \<open>Identifiers at the boundary\<close>

lemma exposes_translated:
  "exposes (get ob ''_id'') (JObj (AList.delete ''_id'' (AList.update ''id'' (get ob ''_id'') ob)))"
  by (simp add: delete_conv' update_conv' delete_keys)

lemma mapM_convertDoc:
  "list_all identified ds \<Longrightarrow>
     \<exists>ds'. mapM convertDoc ds = Inr ds' \<and>
           list_all2 (\<lambda>s d. exposes (identifier_of s) d) ds ds'"
proof (induction ds)
  case Nil
  then show ?case by simp
next
  case (Cons d ds)
  then obtain ds' where ds': "mapM convertDoc ds = Inr ds'"
    "list_all2 (\<lambda>s d. exposes (identifier_of s) d) ds ds'" by auto
  from Cons.prems obtain ob where d: "d = JObj ob" "truthy (get ob ''_id'')"
    by (cases d rule: identified.cases) auto
  from d ds' exposes_translated [of ob] show ?case by (simp add: Let_def)
qed

lemma convertHTTPResponse_documented:
  assumes "type \<noteq> CREATE" and "documented_response type response"
  shows "\<exists>res p'. convertHTTPResponse response type resource params = Inr (res, p') \<and>
                 list_all2 (\<lambda>s d. exposes (identifier_of s) d)
                   (server_records type response) (records_of res)"
proof (cases "list_like type")
  case True
  with assms have lb: "list_body (json response)" by (simp add: documented_response_def)
  then obtain j where j: "json response = JObj j" by (cases "json response") auto
  from lb j obtain ds where ds: "get j ''docs'' = JArr ds" "list_all identified ds"
    and it: "is_object (get j ''items'')"
    by (auto split: jsval.splits)
  from it obtain items where items: "get j ''items'' = JObj items"
    by (cases "get j ''items''") auto
  from mapM_convertDoc [OF ds(2)] obtain ds'
    where ds': "mapM convertDoc ds = Inr ds'"
      "list_all2 (\<lambda>s d. exposes (identifier_of s) d) ds ds'" by blast
  from True j ds items ds' show ?thesis
    by (simp add: convertHTTPResponse_def list_like_def server_records_def)
next
  case False
  with assms obtain j where j: "json response = JObj j"
    by (cases "json response") (auto simp add: documented_response_def)
  from False assms(1) j exposes_translated [of j] show ?thesis
    by (simp add: convertHTTPResponse_def list_like_def server_records_def)
qed

lemma convertHTTPResponse_create:
  "\<exists>d p'. convertHTTPResponse response CREATE resource params = Inr (Result d None, p') \<and>
          exposes (get (data params) ''_id'') d"
  using exposes_translated [of "data params"]
  by (simp add: convertHTTPResponse_def CREATE_distinct Let_def)

lemma convert_request_body:
  assumes c: "convertDataRequestToHTTP apiUrl type resource params = Inr (r, p')"
  shows "set (body_keys (body (options r))) \<inter> housekeeping = {}"
proof -
  consider (l) "type = GET_LIST" | (r) "type = GET_MANY_REFERENCE"
    | (o) "type \<noteq> GET_LIST" "type \<noteq> GET_MANY_REFERENCE" by blast
  then show ?thesis
  proof cases
    case l
    with c show ?thesis by (auto simp add: convert_list no_options_def)
  next
    case r
    with c show ?thesis by (auto simp add: convert_reference no_options_def)
  next
    case o
    with c cleanData_keys [of params] show ?thesis
      by (auto simp add: convertDataRequestToHTTP_def no_options_def split: if_splits)
  qed
qed

lemma single_outcome:
  assumes nb: "type \<noteq> UPDATE_MANY" "type \<noteq> DELETE_MANY"
    and c: "convertDataRequestToHTTP apiUrl type resource params = Inr (r, p')"
    and f: "fst (httpClient w (url r) (options r)) = Promise t (Inr response)"
    and v: "convertHTTPResponse response type resource p' = Inr (res, p2)"
  shows "outcome (dataProvider apiUrl httpClient w type resource params) =
           Returned (Promise t (Inr res))"
  using assms by (simp add: dataProvider_def split_beta Let_def)

text \<open>
  C1, as amended. For the seven kinds that are not update-many or delete-many, no request
  body carries one of the five housekeeping keys. For those of them that are not create,
  when the transport fulfils the request with a response of the documented shape (for
  the list-like kinds, records with a truthy \<^verbatim>\<open>_id\<close>), the adapter's promise is fulfilled
  with a result whose records are, one for one, the records of the response, each
  holding the value of that record's \<^verbatim>\<open>_id\<close> under \<^verbatim>\<open>id\<close> and having no \<^verbatim>\<open>_id\<close> key.
  For create, whatever the response, the record of the result has no \<^verbatim>\<open>_id\<close> key and
  holds under \<^verbatim>\<open>id\<close> the value of \<^verbatim>\<open>_id\<close> in the caller's \<^verbatim>\<open>params.data\<close>, undefined
  when the data has none: the identifier in the response is not read.
\<close>

theorem boundary_identifier_single:
  assumes nb: "type \<noteq> UPDATE_MANY" "type \<noteq> DELETE_MANY"
    and run: "run = dataProvider apiUrl httpClient w type resource params"
  shows "(\<forall>r \<in> set (calls run). set (body_keys (body (options r))) \<inter> housekeeping = {}) \<and>
         (\<forall>r \<in> set (calls run). \<forall>t response.
            type \<noteq> CREATE \<and>
            fst (httpClient w (url r) (options r)) = Promise t (Inr response) \<and>
            documented_response type response \<longrightarrow>
            (\<exists>res. outcome run = Returned (Promise t (Inr res)) \<and>
                   list_all2 (\<lambda>s d. exposes (identifier_of s) d)
                     (server_records type response) (records_of res))) \<and>
         (\<forall>r \<in> set (calls run). \<forall>t response.
            type = CREATE \<and>
            fst (httpClient w (url r) (options r)) = Promise t (Inr response) \<longrightarrow>
            (\<exists>d. outcome run = Returned (Promise t (Inr (Result d None))) \<and>
                 exposes (get (data params) ''_id'') d))"
proof (intro conjI ballI allI impI)
  fix r assume "r \<in> set (calls run)"
  then have "r \<in> set (calls (dataProvider apiUrl httpClient w type resource params))"
    by (simp add: run)
  from single_calls [OF nb this] obtain p'
    where "convertDataRequestToHTTP apiUrl type resource params = Inr (r, p')" by blast
  then show "set (body_keys (body (options r))) \<inter> housekeeping = {}"
    by (rule convert_request_body)
next
  fix r t response
  assume r: "r \<in> set (calls run)"
    and h: "type \<noteq> CREATE \<and>
            fst (httpClient w (url r) (options r)) = Promise t (Inr response) \<and>
            documented_response type response"
  from r have "r \<in> set (calls (dataProvider apiUrl httpClient w type resource params))"
    by (simp add: run)
  from single_calls [OF nb this] obtain p'
    where c: "convertDataRequestToHTTP apiUrl type resource params = Inr (r, p')" by blast
  from h convertHTTPResponse_documented [of type response resource p'] obtain res p2
    where res: "convertHTTPResponse response type resource p' = Inr (res, p2)"
      "list_all2 (\<lambda>s d. exposes (identifier_of s) d)
         (server_records type response) (records_of res)" by blast
  from h have f: "fst (httpClient w (url r) (options r)) = Promise t (Inr response)" by simp
  from single_outcome [where httpClient = httpClient and w = w, OF nb c f res(1)]
  have "outcome run = Returned (Promise t (Inr res))" by (simp add: run)
  with res(2) show "\<exists>res. outcome run = Returned (Promise t (Inr res)) \<and>
                   list_all2 (\<lambda>s d. exposes (identifier_of s) d)
                     (server_records type response) (records_of res)" by blast
next
  fix r t response
  assume r: "r \<in> set (calls run)"
    and h: "type = CREATE \<and>
            fst (httpClient w (url r) (options r)) = Promise t (Inr response)"
  from r have "r \<in> set (calls (dataProvider apiUrl httpClient w type resource params))"
    by (simp add: run)
  from single_calls [OF nb this] obtain p'
    where c: "convertDataRequestToHTTP apiUrl type resource params = Inr (r, p')" by blast
  from h have ne: "type \<noteq> GET_LIST" "type \<noteq> GET_MANY_REFERENCE"
    by (simp_all add: CREATE_distinct)
  from convert_other [OF ne c] have p': "p' = params" .
  from h convertHTTPResponse_create [of response resource params] obtain d p2
    where d: "convertHTTPResponse response type resource params = Inr (Result d None, p2)"
      "exposes (get (data params) ''_id'') d" by blast
  from h have f: "fst (httpClient w (url r) (options r)) = Promise t (Inr response)" by simp
  from d(1) p' have v: "convertHTTPResponse response type resource p' = Inr (Result d None, p2)"
    by simp
  from single_outcome [where httpClient = httpClient and w = w, OF nb c f v]
  have "outcome run = Returned (Promise t (Inr (Result d None)))" by (simp add: run)
  with d(2) show "\<exists>d. outcome run = Returned (Promise t (Inr (Result d None))) \<and>
                 exposes (get (data params) ''_id'') d" by blast
qed

lemma list_kinds: "GET_LIST \<noteq> UPDATE_MANY" "GET_LIST \<noteq> DELETE_MANY" "GET_LIST \<noteq> CREATE"
  by (simp_all add: kind_defs)

lemma update_kinds: "UPDATE \<noteq> UPDATE_MANY" "UPDATE \<noteq> DELETE_MANY" "UPDATE \<noteq> CREATE"
  by (simp_all add: kind_defs)

lemma list_run:
  "calls (dataProvider ''base'' list_client 0 GET_LIST ''posts'' params0) = [list_request] \<and>
   outcome (dataProvider ''base'' list_client 0 GET_LIST ''posts'' params0) =
     Returned (Promise 0 (Inr (Result (JArr [JObj [(''title'', JStr ''A''), (''id'', JStr ''1'')]])
                                      (Some (JNum 1)))))"
  by (simp add: dataProvider_def list_convert list_kinds list_client_def list_response_def
      convertHTTPResponse_def get_def)

lemma update_run:
  "calls (dataProvider ''base'' client0 0 UPDATE ''posts'' params0) = [update_request] \<and>
   outcome (dataProvider ''base'' client0 0 UPDATE ''posts'' params0) =
     Returned (Promise 0 (Inr (Result (JObj [(''name'', JStr ''x''), (''id'', JStr ''a'')]) None)))"
  by (simp add: dataProvider_def convertDataRequestToHTTP_def convertHTTPResponse_def
      cleanData_def Object_assign_def params0_def client0_def update_request_def get_def
      kind_defs)

theorem boundary_identifier_single_witness:
  "UPDATE \<noteq> UPDATE_MANY \<and> UPDATE \<noteq> DELETE_MANY \<and> UPDATE \<noteq> CREATE \<and>
   calls (dataProvider ''base'' client0 0 UPDATE ''posts'' params0) = [update_request] \<and>
   body (options update_request) = Some (JSON_stringify (JObj [(''name'', JStr ''x'')])) \<and>
   set (body_keys (body (options update_request))) \<inter> housekeeping = {} \<and>
   fst (client0 0 (url update_request) (options update_request)) =
     Promise 0 (Inr update_response) \<and>
   documented_response UPDATE update_response \<and>
   server_records UPDATE update_response = [JObj [(''_id'', JStr ''a''), (''name'', JStr ''x'')]] \<and>
   outcome (dataProvider ''base'' client0 0 UPDATE ''posts'' params0) =
     Returned (Promise 0 (Inr (Result (JObj [(''name'', JStr ''x''), (''id'', JStr ''a'')]) None))) \<and>
   exposes (JStr ''a'') (JObj [(''name'', JStr ''x''), (''id'', JStr ''a'')]) \<and>
   GET_LIST \<noteq> UPDATE_MANY \<and> GET_LIST \<noteq> DELETE_MANY \<and> GET_LIST \<noteq> CREATE \<and>
   calls (dataProvider ''base'' list_client 0 GET_LIST ''posts'' params0) = [list_request] \<and>
   fst (list_client 0 (url list_request) (options list_request)) =
     Promise 0 (Inr list_response) \<and>
   documented_response GET_LIST list_response \<and>
   server_records GET_LIST list_response = [JObj [(''_id'', JStr ''1''), (''title'', JStr ''A'')]] \<and>
   outcome (dataProvider ''base'' list_client 0 GET_LIST ''posts'' params0) =
     Returned (Promise 0 (Inr (Result (JArr [JObj [(''title'', JStr ''A''), (''id'', JStr ''1'')]])
                                      (Some (JNum 1))))) \<and>
   exposes (JStr ''1'') (JObj [(''title'', JStr ''A''), (''id'', JStr ''1'')])"
proof -
  let ?urun = "dataProvider ''base'' client0 0 UPDATE ''posts'' params0"
  let ?lrun = "dataProvider ''base'' list_client 0 GET_LIST ''posts'' params0"
  note tu = boundary_identifier_single [OF update_kinds(1,2) refl,
      of "''base''" client0 0 "''posts''" params0]
  note tl = boundary_identifier_single [OF list_kinds(1,2) refl,
      of "''base''" list_client 0 "''posts''" params0]
  have ur: "update_request \<in> set (calls ?urun)" by (simp add: update_run)
  have ub: "body (options update_request) = Some (JSON_stringify (JObj [(''name'', JStr ''x'')]))"
    by (simp add: update_request_def)
  from tu ur have uk: "set (body_keys (body (options update_request))) \<inter> housekeeping = {}"
    by blast
  have uf: "fst (client0 0 (url update_request) (options update_request)) =
              Promise 0 (Inr update_response)"
    by (simp add: client0_def update_response_def)
  have ud: "documented_response UPDATE update_response"
    by (simp add: documented_response_def list_like_def update_response_def get_def
        not_null_def kind_defs)
  have us: "server_records UPDATE update_response =
              [JObj [(''_id'', JStr ''a''), (''name'', JStr ''x'')]]"
    by (simp add: server_records_def list_like_def update_response_def kind_defs)
  from tu ur uf ud update_kinds(3) obtain ures
    where "outcome ?urun = Returned (Promise 0 (Inr ures))"
      and "list_all2 (\<lambda>s d. exposes (identifier_of s) d)
             (server_records UPDATE update_response) (records_of ures)" by blast
  with update_run us
  have ue: "exposes (JStr ''a'') (JObj [(''name'', JStr ''x''), (''id'', JStr ''a'')])"
    by (simp add: get_def)
  have lr: "list_request \<in> set (calls ?lrun)" by (simp add: list_run)
  have lf: "fst (list_client 0 (url list_request) (options list_request)) =
             Promise 0 (Inr list_response)"
    by (simp add: list_client_def)
  have ld: "documented_response GET_LIST list_response"
    by (simp add: documented_response_def list_like_def list_response_def get_def)
  have ls: "server_records GET_LIST list_response =
              [JObj [(''_id'', JStr ''1''), (''title'', JStr ''A'')]]"
    by (simp add: server_records_def list_like_def list_response_def get_def)
  from tl lr lf ld list_kinds(3) obtain lres
    where "outcome ?lrun = Returned (Promise 0 (Inr lres))"
      and "list_all2 (\<lambda>s d. exposes (identifier_of s) d)
             (server_records GET_LIST list_response) (records_of lres)" by blast
  with list_run ls
  have le: "exposes (JStr ''1'') (JObj [(''title'', JStr ''A''), (''id'', JStr ''1'')])"
    by (simp add: get_def)
  from update_kinds list_kinds update_run list_run ub uk uf ud us ue lf ld ls le
  show ?thesis by simp
qed

text \<open>
  C1 as stated fails on the bulk operations and on create. Update-many sends
  \<^verbatim>\<open>params.data\<close> uncleaned, so the body carries \<^verbatim>\<open>id\<close>, and the aggregate result holds
  the response bodies as they are, with \<^verbatim>\<open>_id\<close> and without \<^verbatim>\<open>id\<close>. Create with data
  \<^verbatim>\<open>{name: 'x'}\<close>, answered with the record \<^verbatim>\<open>{_id: 'a', name: 'x'}\<close>, returns
  \<^verbatim>\<open>{name: 'x', id: undefined}\<close>.
\<close>

theorem bulk_update_keeps_id_fields:
  "calls (dataProvider ''base'' client0 0 UPDATE_MANY ''posts'' (params0\<lparr>ids := [JStr ''1'']\<rparr>)) =
     [\<lparr>url = [Lit ''base'', Lit ''/'', Lit ''posts'', Lit ''/'', Interp (JStr ''1'')],
       options = \<lparr>http_method = Some ''PATCH'',
                  body = Some (JSON_stringify
                                 (JObj [(''id'', JNum 1), (''name'', JStr ''x'')]))\<rparr>\<rparr>] \<and>
   body_keys (Some (JSON_stringify (JObj [(''id'', JNum 1), (''name'', JStr ''x'')]))) =
     [''id'', ''name''] \<and>
   outcome (dataProvider ''base'' client0 0 UPDATE_MANY ''posts''
              (params0\<lparr>ids := [JStr ''1'']\<rparr>)) =
     Returned (Promise 0 (Inr (Result (JArr [JObj [(''_id'', JStr ''a''), (''name'', JStr ''x'')]])
                                      None))) \<and>
   \<not> exposes (JStr ''a'') (JObj [(''_id'', JStr ''a''), (''name'', JStr ''x'')]) \<and>
   fst (client0 0 [Lit ''base'', Lit ''/'', Lit ''posts'']
          \<lparr>http_method = Some ''POST'',
           body = Some (JSON_stringify (JObj [(''name'', JStr ''x'')]))\<rparr>) =
     Promise 0 (Inr update_response) \<and>
   json update_response = JObj [(''_id'', JStr ''a''), (''name'', JStr ''x'')] \<and>
   outcome (dataProvider ''base'' client0 0 CREATE ''posts''
              (params0\<lparr>data := [(''name'', JStr ''x'')]\<rparr>)) =
     Returned (Promise 0 (Inr (Result (JObj [(''name'', JStr ''x''), (''id'', JUndefined)])
                                      None))) \<and>
   \<not> exposes (JStr ''a'') (JObj [(''name'', JStr ''x''), (''id'', JUndefined)])"
  by (simp add: dataProvider_def params0_def client0_def Promise_all_def update_response_def
      convertDataRequestToHTTP_def convertHTTPResponse_def cleanData_def Object_assign_def
      get_def kind_defs Let_def)

end
